theory Spec2Isabelle
  imports Complex_Main
begin

section \<open>ADICVTransformer (sktime/transformations/series/adi_cv.py)\<close>

text \<open>
  A shallow embedding of \<^verbatim>\<open>ADICVTransformer.__init__\<close> and
  \<^verbatim>\<open>ADICVTransformer._transform\<close>.

  Numbers. The observations of the series are reals. A value computed by numpy is a
  \<open>fval\<close>: a real, an infinity or NaN. Arithmetic on finite values is exact: the rounding
  and the overflow of IEEE doubles and the sign of zero are not modelled. What is modelled
  of IEEE arithmetic is what decides the control flow of the source: a numpy division by
  zero gives an infinity or NaN (with a warning, no exception), the mean and the standard
  deviation of an empty array are NaN, and every comparison with NaN is false. The
  division of two Python \<^verbatim>\<open>int\<close>s by \<^verbatim>\<open>/\<close> raises
  \<^verbatim>\<open>ZeroDivisionError\<close> when the divisor is zero.

  Errors. Every exception the two methods can raise is a value of \<open>py_error\<close>, and a
  method that can raise returns \<open>py_error + 'a\<close>.
\<close>

subsection \<open>Values and exceptions\<close>

datatype fval = Fin real | PInf | NInf | NaN

datatype py_error =
    ValueError
  | IndexError
  | ZeroDivisionError
  | UnboundLocalError
  | KeyError

text \<open>\<^verbatim>\<open>x <= y\<close> on floats: false as soon as one side is NaN.\<close>

fun fle :: "fval \<Rightarrow> fval \<Rightarrow> bool" where
  "fle NaN _ = False"
| "fle _ NaN = False"
| "fle NInf _ = True"
| "fle _ PInf = True"
| "fle (Fin a) (Fin b) = (a \<le> b)"
| "fle (Fin _) NInf = False"
| "fle PInf _ = False"

text \<open>\<^verbatim>\<open>x / y\<close> on numpy floats: no exception, division by zero gives an infinity or NaN.\<close>

fun fdiv :: "fval \<Rightarrow> fval \<Rightarrow> fval" where
  "fdiv NaN _ = NaN"
| "fdiv _ NaN = NaN"
| "fdiv (Fin a) (Fin b) =
     (if b = 0 then (if a = 0 then NaN else if 0 < a then PInf else NInf)
      else Fin (a / b))"
| "fdiv (Fin _) _ = Fin 0"
| "fdiv PInf (Fin b) = (if b < 0 then NInf else PInf)"
| "fdiv NInf (Fin b) = (if b < 0 then PInf else NInf)"
| "fdiv _ _ = NaN"

text \<open>\<^verbatim>\<open>x ** 2\<close> on numpy floats.\<close>

fun fsq :: "fval \<Rightarrow> fval" where
  "fsq NaN = NaN"
| "fsq (Fin a) = Fin (a\<^sup>2)"
| "fsq _ = PInf"

text \<open>
  \<^verbatim>\<open>a / b\<close> on two Python ints (lines 202-209, handling "pool" and "ignore"):
  true division, \<^verbatim>\<open>ZeroDivisionError\<close> on a zero divisor.
\<close>

definition py_truediv :: "int \<Rightarrow> int \<Rightarrow> py_error + fval" where
  "py_truediv a b =
     (if b = 0 then Inl ZeroDivisionError else Inr (Fin (real_of_int a / real_of_int b)))"

text \<open>
  \<^verbatim>\<open>a / b\<close> where \<open>a\<close> is a \<^verbatim>\<open>numpy.int64\<close> (lines 195-199 and 209, handling
  "trim"): numpy's true division, which never raises.
\<close>

definition np_truediv :: "int \<Rightarrow> int \<Rightarrow> fval" where
  "np_truediv a b = fdiv (Fin (real_of_int a)) (Fin (real_of_int b))"

text \<open>
  \<^verbatim>\<open>np.mean\<close> and \<^verbatim>\<open>np.std\<close> (population standard deviation, \<^verbatim>\<open>ddof=0\<close>), as numpy
  defines them: the sum over the count, and the square root of the mean squared deviation
  from the mean; NaN on an empty array. They are taken in exact arithmetic. The doubles
  numpy computes agree with them up to rounding as long as no intermediate value overflows
  or underflows; beyond that range (squares above about \<open>1e308\<close> or below about \<open>1e-308\<close>)
  numpy returns an infinity, zero or NaN where these return a finite value. The statements
  below take their value on a non-empty array only in the worked examples and on an array
  of one element (deviation \<open>0\<close>, mean the element itself), where the doubles are in range.
\<close>

definition mean :: "real list \<Rightarrow> real" where
  "mean xs = sum_list xs / real (length xs)"

definition np_mean :: "real list \<Rightarrow> fval" where
  "np_mean xs = (if xs = [] then NaN else Fin (mean xs))"

definition np_std :: "real list \<Rightarrow> fval" where
  "np_std xs =
     (if xs = [] then NaN
      else Fin (sqrt (mean (map (\<lambda>x. (x - mean xs)\<^sup>2) xs))))"

subsection \<open>The transformer object and its constructor\<close>

record transformer =
  adi_threshold :: fval
  cv_threshold :: fval
  features :: "string list option"
  adi_trim_handling :: string
  features_internal :: "string list"

text \<open>
  \<^verbatim>\<open>__init__\<close> (lines 110-161). The four parameters are stored as they are, the features
  list is checked against the three valid names, and \<^verbatim>\<open>None\<close> becomes the default
  list. \<^verbatim>\<open>adi_trim_handling\<close> is stored without any check. The call of the parent's
  constructor is outside this file.
\<close>

definition valid_features :: "string list" where
  "valid_features = [''adi'', ''cv2'', ''class'']"

definition init :: "string list option \<Rightarrow> fval \<Rightarrow> fval \<Rightarrow> string \<Rightarrow> py_error + transformer" where
  "init fs adi_thr cv_thr handling =
     (let self = (\<lambda>fi. \<lparr>adi_threshold = adi_thr, cv_threshold = cv_thr, features = fs,
                        adi_trim_handling = handling, features_internal = fi\<rparr>)
      in case fs of
           Some l \<Rightarrow>
             if \<not> list_all (\<lambda>feature. feature \<in> set valid_features) l
             then Inl ValueError
             else Inr (self l)
         | None \<Rightarrow> Inr (self valid_features))"

text \<open>The defaults of the signature: \<^verbatim>\<open>adi_threshold=1.32, cv_threshold=0.49\<close>.\<close>

definition default_adi_threshold :: fval where
  "default_adi_threshold = Fin (132 / 100)"

definition default_cv_threshold :: fval where
  "default_cv_threshold = Fin (49 / 100)"

subsection \<open>The transform\<close>

text \<open>
  \<^verbatim>\<open>X.to_numpy().nonzero()[0]\<close> (line 187): the positions of the non-zero observations,
  ascending. \<open>nonzero_from i xs\<close> numbers the elements of \<open>xs\<close> from \<open>i\<close>.
\<close>

fun nonzero_from :: "nat \<Rightarrow> real list \<Rightarrow> nat list" where
  "nonzero_from i [] = []"
| "nonzero_from i (x # xs) =
     (if x \<noteq> 0 then i # nonzero_from (Suc i) xs else nonzero_from (Suc i) xs)"

definition nonzero :: "real list \<Rightarrow> nat list" where
  "nonzero X = nonzero_from 0 X"

text \<open>
  Lines 190-209: the ADI. Under "trim" the first and the last non-zero position are read
  (\<^verbatim>\<open>IndexError\<close> when there is none) and the quotient is numpy's; under "pool" and
  "ignore" the quotient is of two Python ints. Under any other handling no branch binds
  \<^verbatim>\<open>adi_numerator\<close>, and line 209 raises \<^verbatim>\<open>UnboundLocalError\<close>.
\<close>

definition adi_value :: "string \<Rightarrow> nat list \<Rightarrow> int \<Rightarrow> int \<Rightarrow> py_error + fval" where
  "adi_value handling X_non_zero_indices n_non_zero_observations n_observations =
     (if handling = ''trim'' then
        (case X_non_zero_indices of
           [] \<Rightarrow> Inl IndexError
         | first_non_zero # _ \<Rightarrow>
             Inr (np_truediv (int (last X_non_zero_indices) - int first_non_zero)
                             (n_non_zero_observations - 1)))
      else if handling = ''pool'' then
        py_truediv n_observations n_non_zero_observations
      else if handling = ''ignore'' then
        py_truediv n_observations (n_non_zero_observations - 1)
      else Inl UnboundLocalError)"

text \<open>
  Lines 211-214: the squared coefficient of variation of the non-zero values, with the
  exact mean and standard deviation above.
\<close>

definition cv2_value :: "real list \<Rightarrow> fval" where
  "cv2_value X_non_zero_values =
     (let sigma = np_std X_non_zero_values;
          mu = np_mean X_non_zero_values
      in fsq (fdiv sigma mu))"

text \<open>
  Lines 216-229: the class. The chain of \<^verbatim>\<open>if\<close>/\<^verbatim>\<open>elif\<close> has no \<^verbatim>\<open>else\<close>:
  \<open>None\<close> stands for \<^verbatim>\<open>class_type\<close> left unbound.
\<close>

definition class_type :: "fval \<Rightarrow> fval \<Rightarrow> fval \<Rightarrow> fval \<Rightarrow> string option" where
  "class_type adi cv2 adi_thr cv_thr =
     (let adi_low = fle adi adi_thr;
          cv2_low = fle cv2 cv_thr;
          adi_high = (\<not> adi_low);
          cv2_high = (\<not> cv2_low)
      in if adi_low \<and> cv2_low then Some ''smooth''
         else if adi_low \<and> cv2_high then Some ''erratic''
         else if adi_high \<and> cv2_low then Some ''intermittent''
         else if adi_high \<and> cv2_high then Some ''lumpy''
         else None)"

text \<open>Lines 187-229 together: the three values, or the exception raised on the way.\<close>

definition compute :: "transformer \<Rightarrow> real list \<Rightarrow> py_error + (fval \<times> fval \<times> string option)" where
  "compute self X =
     (let X_non_zero_indices = nonzero X;
          X_non_zero_values = map (\<lambda>i. X ! i) X_non_zero_indices;
          n_non_zero_observations = int (length X_non_zero_indices);
          n_observations = int (length X)
      in case adi_value (adi_trim_handling self) X_non_zero_indices
                n_non_zero_observations n_observations of
           Inl e \<Rightarrow> Inl e
         | Inr adi \<Rightarrow>
             (let cv2 = cv2_value X_non_zero_values
              in Inr (adi, cv2, class_type adi cv2 (adi_threshold self) (cv_threshold self))))"

text \<open>
  Lines 231-248: the one-row data frame. A row is the list of its columns, each a label
  and the value in it. \<open>loc_columns\<close> is \<^verbatim>\<open>df.loc[:, labels]\<close>: the columns named by
  \<open>labels\<close>, in that order, \<^verbatim>\<open>KeyError\<close> on a label the frame does not have.
\<close>

datatype cell = Float fval | Str string

type_synonym row = "(string \<times> cell) list"

fun loc_columns :: "row \<Rightarrow> string list \<Rightarrow> py_error + row" where
  "loc_columns df [] = Inr []"
| "loc_columns df (l # ls) =
     (case map_of df l of
        None \<Rightarrow> Inl KeyError
      | Some v \<Rightarrow>
          (case loc_columns df ls of
             Inl e \<Rightarrow> Inl e
           | Inr r \<Rightarrow> Inr ((l, v) # r)))"

definition assemble :: "string list \<Rightarrow> fval \<Rightarrow> fval \<Rightarrow> string option \<Rightarrow> py_error + row" where
  "assemble fi adi cv2 cls =
     (let d0 = (if ''adi'' \<in> set fi then [(''adi'', Float adi)] else []);
          d1 = d0 @ (if ''cv2'' \<in> set fi then [(''cv2'', Float cv2)] else [])
      in if ''class'' \<in> set fi then
           (case cls of
              None \<Rightarrow> Inl UnboundLocalError
            | Some c \<Rightarrow> loc_columns (d1 @ [(''class'', Str c)]) fi)
         else loc_columns d1 fi)"

definition transform :: "transformer \<Rightarrow> real list \<Rightarrow> py_error + row" where
  "transform self X =
     (case compute self X of
        Inl e \<Rightarrow> Inl e
      | Inr (adi, cv2, cls) \<Rightarrow> assemble (features_internal self) adi cv2 cls)"

text \<open>
  The constructor followed by one call of \<^verbatim>\<open>_transform\<close>, as in the docstring's
  example (\<^verbatim>\<open>fit\<close> is empty for this transformer).
\<close>

definition init_transform :: "string list option \<Rightarrow> fval \<Rightarrow> fval \<Rightarrow> string \<Rightarrow> real list \<Rightarrow> py_error + row" where
  "init_transform fs adi_thr cv_thr handling X =
     (case init fs adi_thr cv_thr handling of
        Inl e \<Rightarrow> Inl e
      | Inr self \<Rightarrow> transform self X)"

text \<open>
  The object the constructor returns for the default features and thresholds and the
  handling \<open>h\<close>.
\<close>

abbreviation default_self :: "string \<Rightarrow> transformer" where
  "default_self h \<equiv>
     \<lparr>adi_threshold = default_adi_threshold, cv_threshold = default_cv_threshold,
      features = None, adi_trim_handling = h, features_internal = valid_features\<rparr>"


section \<open>Properties\<close>

subsection \<open>The non-zero positions and values\<close>

lemma length_nonzero_from: "length (nonzero_from i xs) = length (filter (\<lambda>x. x \<noteq> 0) xs)"
  by (induction xs arbitrary: i) auto

lemma length_nonzero: "length (nonzero X) = length (filter (\<lambda>x. x \<noteq> 0) X)"
  by (simp add: nonzero_def length_nonzero_from)

lemma set_nonzero_from: "set (nonzero_from i xs) = {i + k | k. k < length xs \<and> xs ! k \<noteq> 0}"
proof (induction xs arbitrary: i)
  case Nil
  show ?case by simp
next
  case (Cons x xs)
  have "{i + k | k. k < length (x # xs) \<and> (x # xs) ! k \<noteq> 0}
      = (if x \<noteq> 0 then {i} else {}) \<union> {Suc i + k | k. k < length xs \<and> xs ! k \<noteq> 0}"
    (is "?L = ?R")
  proof (intro set_eqI iffI)
    fix n assume "n \<in> ?L"
    then obtain k where k: "n = i + k" "k < length (x # xs)" "(x # xs) ! k \<noteq> 0" by blast
    show "n \<in> ?R"
    proof (cases k)
      case 0
      with k show ?thesis by simp
    next
      case (Suc k')
      with k have "n = Suc i + k'" "k' < length xs" "xs ! k' \<noteq> 0" by simp_all
      then show ?thesis by blast
    qed
  next
    fix n assume "n \<in> ?R"
    then consider "x \<noteq> 0" "n = i" | k where "n = Suc i + k" "k < length xs" "xs ! k \<noteq> 0"
      by (auto split: if_splits)
    then show "n \<in> ?L"
    proof cases
      case 1
      then have "n = i + 0 \<and> 0 < length (x # xs) \<and> (x # xs) ! 0 \<noteq> 0" by simp
      then show ?thesis by blast
    next
      case 2
      then have "n = i + Suc k \<and> Suc k < length (x # xs) \<and> (x # xs) ! Suc k \<noteq> 0" by simp
      then show ?thesis by blast
    qed
  qed
  with Cons show ?case by auto
qed

lemma set_nonzero: "set (nonzero X) = {k. k < length X \<and> X ! k \<noteq> 0}"
  by (simp add: nonzero_def set_nonzero_from)

lemma nonzero_from_lower: "n \<in> set (nonzero_from i xs) \<Longrightarrow> i \<le> n"
  by (auto simp: set_nonzero_from)

lemma sorted_nonzero_from: "sorted_wrt (<) (nonzero_from i xs)"
proof (induction xs arbitrary: i)
  case Nil show ?case by simp
next
  case (Cons x xs)
  have "\<forall>n \<in> set (nonzero_from (Suc i) xs). i < n"
    by (auto dest!: nonzero_from_lower)
  with Cons show ?case by simp
qed

lemma sorted_nonzero: "sorted_wrt (<) (nonzero X)"
  by (simp add: nonzero_def sorted_nonzero_from)

lemma values_nonzero_from:
  "map (\<lambda>j. xs ! (j - i)) (nonzero_from i xs) = filter (\<lambda>x. x \<noteq> 0) xs"
proof (induction xs arbitrary: i)
  case Nil show ?case by simp
next
  case (Cons x xs)
  have "map (\<lambda>j. (x # xs) ! (j - i)) (nonzero_from (Suc i) xs)
      = map (\<lambda>j. xs ! (j - Suc i)) (nonzero_from (Suc i) xs)"
  proof (rule map_cong[OF refl])
    fix j assume "j \<in> set (nonzero_from (Suc i) xs)"
    then have "Suc i \<le> j" by (rule nonzero_from_lower)
    then have "j - i = Suc (j - Suc i)" by simp
    then show "(x # xs) ! (j - i) = xs ! (j - Suc i)" by simp
  qed
  with Cons[of "Suc i"] show ?case by (cases "x = 0") simp_all
qed

lemma values_nonzero: "map (\<lambda>i. X ! i) (nonzero X) = filter (\<lambda>x. x \<noteq> 0) X"
  using values_nonzero_from[of X 0] by (simp add: nonzero_def)

lemma sorted_hd_le: "sorted_wrt (<) l \<Longrightarrow> (x::nat) \<in> set l \<Longrightarrow> hd l \<le> x"
  by (cases l) auto

lemma sorted_le_last: "sorted_wrt (<) l \<Longrightarrow> (x::nat) \<in> set l \<Longrightarrow> x \<le> last l"
proof (induction l)
  case Nil then show ?case by simp
next
  case (Cons a l)
  show ?case
  proof (cases "l = []")
    case True with Cons.prems show ?thesis by simp
  next
    case False
    then have la: "last l \<in> set l" by simp
    show ?thesis
    proof (cases "x = a")
      case True
      with Cons.prems la False show ?thesis by (auto intro: less_imp_le)
    next
      case False
      with Cons \<open>l \<noteq> []\<close> show ?thesis by simp
    qed
  qed
qed

lemma hd_nonzero:
  assumes "i < length X" "X ! i \<noteq> 0" "\<forall>k<i. X ! k = 0"
  shows "hd (nonzero X) = i"
proof -
  have mem: "i \<in> set (nonzero X)" using assms by (simp add: set_nonzero)
  then have ne: "nonzero X \<noteq> []" by auto
  have "hd (nonzero X) \<le> i" using sorted_hd_le[OF sorted_nonzero mem] .
  moreover have "hd (nonzero X) \<in> set (nonzero X)" using ne by simp
  then have "X ! hd (nonzero X) \<noteq> 0" by (simp add: set_nonzero)
  then have "\<not> hd (nonzero X) < i" using assms(3) by blast
  ultimately show ?thesis by simp
qed

lemma last_nonzero:
  assumes "j < length X" "X ! j \<noteq> 0" "\<forall>k. j < k \<and> k < length X \<longrightarrow> X ! k = 0"
  shows "last (nonzero X) = j"
proof -
  have mem: "j \<in> set (nonzero X)" using assms by (simp add: set_nonzero)
  then have ne: "nonzero X \<noteq> []" by auto
  have "j \<le> last (nonzero X)" using sorted_le_last[OF sorted_nonzero mem] .
  moreover have "last (nonzero X) \<in> set (nonzero X)" using ne by simp
  then have "last (nonzero X) < length X \<and> X ! last (nonzero X) \<noteq> 0" by (simp add: set_nonzero)
  then have "\<not> j < last (nonzero X)" using assms(3) by blast
  ultimately show ?thesis by simp
qed

lemma class_type_table:
  "class_type adi cv2 a c =
     Some (if fle adi a then (if fle cv2 c then ''smooth'' else ''erratic'')
           else (if fle cv2 c then ''intermittent'' else ''lumpy''))"
  by (simp add: class_type_def)

lemma compute_unfold:
  "compute t X =
     (case adi_value (adi_trim_handling t) (nonzero X)
             (int (length (filter (\<lambda>x. x \<noteq> 0) X))) (int (length X)) of
        Inl e \<Rightarrow> Inl e
      | Inr adi \<Rightarrow>
          Inr (adi, cv2_value (filter (\<lambda>x. x \<noteq> 0) X),
               class_type adi (cv2_value (filter (\<lambda>x. x \<noteq> 0) X))
                 (adi_threshold t) (cv_threshold t)))"
  by (simp add: compute_def Let_def values_nonzero length_nonzero split: sum.splits)

lemma fle_refl: "x \<noteq> NaN \<Longrightarrow> fle x x"
  by (cases x) simp_all

subsection \<open>The constructor and the assembled row\<close>

lemma init_None:
  "init None a c h = Inr \<lparr>adi_threshold = a, cv_threshold = c, features = None,
        adi_trim_handling = h, features_internal = valid_features\<rparr>"
  by (simp add: init_def)

lemma init_Some_valid:
  "set fs \<subseteq> set valid_features \<Longrightarrow>
   init (Some fs) a c h = Inr \<lparr>adi_threshold = a, cv_threshold = c, features = Some fs,
        adi_trim_handling = h, features_internal = fs\<rparr>"
  by (auto simp: init_def list_all_iff)

lemma loc_columns_present:
  "\<forall>l\<in>set ls. map_of df l \<noteq> None \<Longrightarrow>
   loc_columns df ls = Inr (map (\<lambda>l. (l, the (map_of df l))) ls)"
  by (induction ls) auto

lemma assemble_valid:
  assumes "set fi \<subseteq> set valid_features"
  shows "assemble fi adi cv2 (Some c) =
           Inr (map (\<lambda>f. (f, if f = ''adi'' then Float adi
                             else if f = ''cv2'' then Float cv2 else Str c)) fi)"
proof -
  let ?d = "(if ''adi'' \<in> set fi then [(''adi'', Float adi)] else [])
          @ (if ''cv2'' \<in> set fi then [(''cv2'', Float cv2)] else [])
          @ (if ''class'' \<in> set fi then [(''class'', Str c)] else [])"
  have a: "assemble fi adi cv2 (Some c) = loc_columns ?d fi"
    by (simp add: assemble_def)
  have m: "map_of ?d f = Some (if f = ''adi'' then Float adi
                             else if f = ''cv2'' then Float cv2 else Str c)"
    if "f \<in> set fi" for f
  proof -
    from that assms have "f = ''adi'' \<or> f = ''cv2'' \<or> f = ''class''"
      by (auto simp: valid_features_def)
    then show ?thesis using that by auto
  qed
  then have "\<forall>l\<in>set fi. map_of ?d l \<noteq> None" by simp
  then have "loc_columns ?d fi = Inr (map (\<lambda>l. (l, the (map_of ?d l))) fi)"
    by (rule loc_columns_present)
  also have "map (\<lambda>l. (l, the (map_of ?d l))) fi
           = map (\<lambda>f. (f, if f = ''adi'' then Float adi
                             else if f = ''cv2'' then Float cv2 else Str c)) fi"
  proof (rule map_cong[OF refl])
    fix f assume "f \<in> set fi"
    from m[OF this] show "(f, the (map_of ?d f))
        = (f, if f = ''adi'' then Float adi else if f = ''cv2'' then Float cv2 else Str c)"
      by (simp only: option.sel)
  qed
  finally show ?thesis using a by simp
qed

lemma compute_class_bound:
  "compute t X = Inr (adi, cv2, cls) \<Longrightarrow> \<exists>c. cls = Some c"
  by (auto simp: compute_unfold class_type_table split: sum.splits)

lemma transform_valid:
  assumes "set (features_internal t) \<subseteq> set valid_features"
    and "compute t X = Inr (adi, cv2, Some c)"
  shows "transform t X =
           Inr (map (\<lambda>f. (f, if f = ''adi'' then Float adi
                             else if f = ''cv2'' then Float cv2 else Str c))
                  (features_internal t))"
  using assms by (simp add: transform_def assemble_valid)

lemma unknown_handling:
  "adi_trim_handling t \<notin> {''trim'', ''pool'', ''ignore''} \<Longrightarrow>
   transform t X = Inl UnboundLocalError"
  by (simp add: transform_def compute_unfold adi_value_def)

subsection \<open>The class label\<close>

text \<open>
  C1. Whenever lines 187-229 produce the ADI and the CV2, the class is bound, and it is the
  entry of the two-by-two table for \<open>adi_low = (ADI \<le> adi_threshold)\<close> and
  \<open>cv2_low = (CV2 \<le> cv_threshold)\<close>: smooth, erratic, intermittent, lumpy. The four
  labels are distinct strings, so each pair of values gets exactly one. A value equal to its
  threshold is on the low side (an equality of floats excludes NaN).
\<close>

theorem class_quadrants:
  assumes "compute t X = Inr (adi, cv2, cls)"
  shows "cls = Some (if fle adi (adi_threshold t)
                     then (if fle cv2 (cv_threshold t) then ''smooth'' else ''erratic'')
                     else (if fle cv2 (cv_threshold t) then ''intermittent'' else ''lumpy''))
       \<and> (cls = Some ''smooth'' \<longleftrightarrow> fle adi (adi_threshold t) \<and> fle cv2 (cv_threshold t))
       \<and> (cls = Some ''erratic'' \<longleftrightarrow> fle adi (adi_threshold t) \<and> \<not> fle cv2 (cv_threshold t))
       \<and> (cls = Some ''intermittent'' \<longleftrightarrow> \<not> fle adi (adi_threshold t) \<and> fle cv2 (cv_threshold t))
       \<and> (cls = Some ''lumpy'' \<longleftrightarrow> \<not> fle adi (adi_threshold t) \<and> \<not> fle cv2 (cv_threshold t))
       \<and> (adi = adi_threshold t \<and> adi \<noteq> NaN \<longrightarrow> fle adi (adi_threshold t))
       \<and> (cv2 = cv_threshold t \<and> cv2 \<noteq> NaN \<longrightarrow> fle cv2 (cv_threshold t))"
proof -
  from assms have c: "cls = class_type adi cv2 (adi_threshold t) (cv_threshold t)"
    by (auto simp: compute_unfold split: sum.splits)
  show ?thesis unfolding c class_type_table by (auto simp: fle_refl)
qed

text \<open>
  C1, witness: scenario B with both thresholds moved onto the values, \<open>ADI = 1\<close> and
  \<open>CV2 = 0\<close>; both are on the low side and the class is smooth.
\<close>

theorem class_quadrants_witness:
  "compute \<lparr>adi_threshold = Fin 1, cv_threshold = Fin 0, features = None,
              adi_trim_handling = ''pool'', features_internal = valid_features\<rparr>
           [1, 1, 1, 1, 1] = Inr (Fin 1, Fin 0, Some ''smooth'')
   \<and> fle (Fin 1) (Fin 1) \<and> fle (Fin 0) (Fin 0)"
proof -
  let ?t = "\<lparr>adi_threshold = Fin 1, cv_threshold = Fin 0, features = None,
              adi_trim_handling = ''pool'', features_internal = valid_features\<rparr>"
  have c: "compute ?t [1, 1, 1, 1, 1] = Inr (Fin 1, Fin 0, Some ''smooth'')"
    by (simp add: compute_unfold adi_value_def py_truediv_def cv2_value_def np_std_def
          np_mean_def mean_def class_type_table)
  from class_quadrants[OF c] c show ?thesis by simp
qed

subsection \<open>Scenario A\<close>

lemma scenario_A_std: "np_std [5, 3, 4, 2] = Fin (sqrt (5 / 4))"
proof -
  have m: "mean [5, 3, 4, 2] = 7 / 2" by (simp add: mean_def)
  have v: "mean (map (\<lambda>x. (x - 7 / 2)\<^sup>2) [5, 3, 4, 2]) = 5 / 4"
    by (simp add: mean_def power2_eq_square)
  have "np_std [5, 3, 4, 2] = Fin (sqrt (mean (map (\<lambda>x. (x - 7 / 2)\<^sup>2) [5, 3, 4, 2])))"
    unfolding np_std_def m by simp
  then show ?thesis unfolding v .
qed

lemma scenario_A_mean: "np_mean [5, 3, 4, 2] = Fin (7 / 2)"
  by (simp add: np_mean_def mean_def)

lemma scenario_A_cv2: "cv2_value [5, 3, 4, 2] = Fin (5 / 49)"
proof -
  have "(sqrt (5 / 4) / (7 / 2))\<^sup>2 = (5 / 49 :: real)"
    by (simp add: power_divide)
  then show ?thesis
    unfolding cv2_value_def scenario_A_std scenario_A_mean Let_def by simp
qed

lemma scenario_A_compute:
  "adi_trim_handling t = ''pool'' \<Longrightarrow>
   compute t [5, 0, 0, 3, 0, 4, 0, 0, 0, 2] =
     Inr (Fin (5 / 2), Fin (5 / 49),
          class_type (Fin (5 / 2)) (Fin (5 / 49)) (adi_threshold t) (cv_threshold t))"
  by (simp add: compute_unfold adi_value_def py_truediv_def scenario_A_cv2)

lemma scenario_A_row:
  "init_transform None default_adi_threshold default_cv_threshold ''pool''
       [5, 0, 0, 3, 0, 4, 0, 0, 0, 2]
     = Inr [(''adi'', Float (Fin (5 / 2))), (''cv2'', Float (Fin (5 / 49))),
            (''class'', Str ''intermittent'')]"
  by (simp add: init_transform_def init_def transform_def scenario_A_compute class_type_table
        default_adi_threshold_def default_cv_threshold_def assemble_def valid_features_def)

text \<open>
  C2, as the specification states it: on \<open>[5,0,0,3,0,4,0,0,0,2]\<close> with "pool" and the
  default thresholds the CV2 would be about 0.2041, that is \<open>(sqrt 2.5 / 3.5)^2\<close>. The
  transform returns \<open>5/49\<close>, which is more than 0.1 away from both.
\<close>

theorem scenario_A_cv2_counterexample:
  "init_transform None default_adi_threshold default_cv_threshold ''pool''
       [5, 0, 0, 3, 0, 4, 0, 0, 0, 2]
     = Inr [(''adi'', Float (Fin (5 / 2))), (''cv2'', Float (Fin (5 / 49))),
            (''class'', Str ''intermittent'')]
   \<and> \<not> \<bar>5 / 49 - (sqrt (5 / 2) / (7 / 2))\<^sup>2\<bar> < (1 / 10 :: real)
   \<and> \<not> \<bar>5 / 49 - 2041 / 10000\<bar> < (1 / 10 :: real)"
proof -
  have "(sqrt (5 / 2) / (7 / 2))\<^sup>2 = (10 / 49 :: real)"
    by (simp add: power_divide)
  then show ?thesis
    using scenario_A_row by simp
qed

text \<open>
  C2, amended: on that series the ADI is 2.5, the CV2 is \<open>5/49 = (sqrt 1.25 / 3.5)^2\<close>,
  about 0.1020 (the population variance of \<open>[5,3,4,2]\<close> is \<open>5/4\<close>, not \<open>5/2\<close>), and the
  class is intermittent.
\<close>

theorem scenario_A:
  "init_transform None default_adi_threshold default_cv_threshold ''pool''
       [5, 0, 0, 3, 0, 4, 0, 0, 0, 2]
     = Inr [(''adi'', Float (Fin (5 / 2))), (''cv2'', Float (Fin (5 / 49))),
            (''class'', Str ''intermittent'')]
   \<and> (5 / 49 :: real) = (sqrt (5 / 4) / (7 / 2))\<^sup>2
   \<and> \<bar>5 / 49 - 1020 / 10000\<bar> < (1 / 10000 :: real)"
proof -
  have "(sqrt (5 / 4) / (7 / 2))\<^sup>2 = (5 / 49 :: real)"
    by (simp add: power_divide)
  then show ?thesis
    using scenario_A_row by simp
qed

subsection \<open>The ADI\<close>

lemma adi_value_trim:
  "idx \<noteq> [] \<Longrightarrow>
   adi_value ''trim'' idx n T = Inr (np_truediv (int (last idx) - int (hd idx)) (n - 1))"
  by (cases idx) (simp_all add: adi_value_def)

text \<open>
  C3. For a series of length \<open>T\<close> with \<open>N\<close> non-zero observations the ADI is \<open>T / N\<close> under
  "pool" (for \<open>N \<ge> 1\<close>), \<open>(j - i) / (N - 1)\<close> under "trim" (for \<open>N \<ge> 2\<close>, where \<open>i\<close> and \<open>j\<close>
  are the first and the last non-zero position), and \<open>T / (N - 1)\<close> under "ignore" (for
  \<open>N \<noteq> 1\<close>); in each case the transform gets as far as the class.
\<close>

theorem adi_formulas:
  assumes T: "T = length X" and N: "N = length (filter (\<lambda>x. x \<noteq> 0) X)"
  shows "(adi_trim_handling t = ''pool'' \<and> 1 \<le> N \<longrightarrow>
            (\<exists>cv2 cls. compute t X = Inr (Fin (real T / real N), cv2, cls)))
       \<and> (adi_trim_handling t = ''trim'' \<and> 2 \<le> N
            \<and> i < length X \<and> X ! i \<noteq> 0 \<and> (\<forall>k<i. X ! k = 0)
            \<and> j < length X \<and> X ! j \<noteq> 0 \<and> (\<forall>k. j < k \<and> k < length X \<longrightarrow> X ! k = 0) \<longrightarrow>
            (\<exists>cv2 cls. compute t X = Inr (Fin ((real j - real i) / (real N - 1)), cv2, cls)))
       \<and> (adi_trim_handling t = ''ignore'' \<and> N \<noteq> 1 \<longrightarrow>
            (\<exists>cv2 cls. compute t X = Inr (Fin (real T / (real N - 1)), cv2, cls)))"
proof (intro conjI impI)
  assume "adi_trim_handling t = ''pool'' \<and> 1 \<le> N"
  then show "\<exists>cv2 cls. compute t X = Inr (Fin (real T / real N), cv2, cls)"
    using T N by (auto simp: compute_unfold adi_value_def py_truediv_def)
next
  assume a: "adi_trim_handling t = ''trim'' \<and> 2 \<le> N
            \<and> i < length X \<and> X ! i \<noteq> 0 \<and> (\<forall>k<i. X ! k = 0)
            \<and> j < length X \<and> X ! j \<noteq> 0 \<and> (\<forall>k. j < k \<and> k < length X \<longrightarrow> X ! k = 0)"
  then have h: "hd (nonzero X) = i" and l: "last (nonzero X) = j"
    by (simp_all add: hd_nonzero last_nonzero)
  from a N have ne: "nonzero X \<noteq> []" using length_nonzero[of X] by auto
  have "adi_value ''trim'' (nonzero X) (int N) (int T)
          = Inr (Fin ((real j - real i) / (real N - 1)))"
    using a unfolding adi_value_trim[OF ne] h l np_truediv_def by (simp add: algebra_simps)
  with a show "\<exists>cv2 cls. compute t X = Inr (Fin ((real j - real i) / (real N - 1)), cv2, cls)"
    using T N by (simp add: compute_unfold)
next
  assume "adi_trim_handling t = ''ignore'' \<and> N \<noteq> 1"
  then show "\<exists>cv2 cls. compute t X = Inr (Fin (real T / (real N - 1)), cv2, cls)"
    using T N by (auto simp: compute_unfold adi_value_def py_truediv_def)
qed

text \<open>
  C3, witness: \<open>[0,5,0,3,0]\<close> has \<open>T = 5\<close>, \<open>N = 2\<close>, first non-zero position 1 and last 3; the
  ADI is \<open>5/2\<close>, \<open>2\<close> and \<open>5\<close> under the three handlings.
\<close>

theorem adi_formulas_witness:
  "(\<exists>cv2 cls. compute (default_self ''pool'')
        [0, 5, 0, 3, 0] = Inr (Fin (5 / 2), cv2, cls))
 \<and> (\<exists>cv2 cls. compute (default_self ''trim'')
        [0, 5, 0, 3, 0] = Inr (Fin 2, cv2, cls))
 \<and> (\<exists>cv2 cls. compute (default_self ''ignore'')
        [0, 5, 0, 3, 0] = Inr (Fin 5, cv2, cls))"
proof -
  let ?X = "[0, 5, 0, 3, 0] :: real list"
  let ?t = "\<lambda>h. default_self h"
  have T: "5 = length ?X" and N: "2 = length (filter (\<lambda>x. x \<noteq> 0) ?X)" by simp_all
  have first: "1 < length ?X \<and> ?X ! 1 \<noteq> 0 \<and> (\<forall>k<1. ?X ! k = 0)" by simp
  have "\<forall>k. 3 < k \<and> k < length ?X \<longrightarrow> ?X ! k = 0"
  proof (intro allI impI)
    fix k :: nat assume "3 < k \<and> k < length ?X"
    then have "k = 4" by simp
    then show "?X ! k = 0" by simp
  qed
  then have last: "3 < length ?X \<and> ?X ! 3 \<noteq> 0 \<and> (\<forall>k. 3 < k \<and> k < length ?X \<longrightarrow> ?X ! k = 0)"
    by simp
  have p: "\<exists>cv2 cls. compute (?t ''pool'') ?X = Inr (Fin (real 5 / real 2), cv2, cls)"
    using adi_formulas[OF T N, of "?t ''pool''" 1 3] by simp
  have tr: "\<exists>cv2 cls. compute (?t ''trim'') ?X = Inr (Fin ((real 3 - real 1) / (real 2 - 1)), cv2, cls)"
    using adi_formulas[OF T N, of "?t ''trim''" 1 3] first last by simp
  have ig: "\<exists>cv2 cls. compute (?t ''ignore'') ?X = Inr (Fin (real 5 / (real 2 - 1)), cv2, cls)"
    using adi_formulas[OF T N, of "?t ''ignore''" 1 3] by simp
  from p tr ig show ?thesis by simp
qed

subsection \<open>Degenerate series\<close>

lemma all_zero_filter: "(\<forall>x\<in>set X. x = 0) \<Longrightarrow> filter (\<lambda>x. x \<noteq> (0::real)) X = []"
  by (induction X) auto

lemma all_zero_nonzero: "(\<forall>x\<in>set X. x = 0) \<Longrightarrow> nonzero X = []"
  using length_nonzero[of X] by (simp add: all_zero_filter)

lemma cv2_value_Nil: "cv2_value [] = NaN"
  by (simp add: cv2_value_def np_std_def np_mean_def)

lemma cv2_value_single: "v \<noteq> 0 \<Longrightarrow> cv2_value [v] = Fin 0"
  by (simp add: cv2_value_def np_std_def np_mean_def mean_def)

lemma transform_error: "compute t X = Inl e \<Longrightarrow> transform t X = Inl e"
  by (simp add: transform_def)

text \<open>
  Where the transform does raise on a degenerate series: on an all-zero series under "pool"
  (the quotient of two Python ints, line 209) and under "trim" (the read of the first
  non-zero position, line 195), and on a series with exactly one non-zero observation under
  "ignore" (line 209 again).
\<close>

lemma degenerate_series_raises:
  "((\<forall>x\<in>set X. x = 0) \<and> adi_trim_handling t = ''pool'' \<longrightarrow>
       transform t X = Inl ZeroDivisionError)
 \<and> ((\<forall>x\<in>set X. x = 0) \<and> adi_trim_handling t = ''trim'' \<longrightarrow>
       transform t X = Inl IndexError)
 \<and> (length (filter (\<lambda>x. x \<noteq> 0) X) = 1 \<and> adi_trim_handling t = ''ignore'' \<longrightarrow>
       transform t X = Inl ZeroDivisionError)"
proof (intro conjI impI)
  assume "(\<forall>x\<in>set X. x = 0) \<and> adi_trim_handling t = ''pool''"
  then have "compute t X = Inl ZeroDivisionError"
    by (simp add: compute_unfold all_zero_filter adi_value_def py_truediv_def)
  then show "transform t X = Inl ZeroDivisionError" by (rule transform_error)
next
  assume "(\<forall>x\<in>set X. x = 0) \<and> adi_trim_handling t = ''trim''"
  then have "compute t X = Inl IndexError"
    by (simp add: compute_unfold all_zero_filter all_zero_nonzero adi_value_def)
  then show "transform t X = Inl IndexError" by (rule transform_error)
next
  assume "length (filter (\<lambda>x. x \<noteq> 0) X) = 1 \<and> adi_trim_handling t = ''ignore''"
  then have "compute t X = Inl ZeroDivisionError"
    by (simp add: compute_unfold adi_value_def py_truediv_def)
  then show "transform t X = Inl ZeroDivisionError" by (rule transform_error)
qed

text \<open>
  C5. The specification asks that the transform raise on an all-zero series under every
  handling, and on a series with exactly one non-zero observation under "trim" and
  "ignore". Two of the five cases do not raise. Under "ignore" the all-zero series
  \<open>[0,0,0]\<close> has the divisor \<open>0 - 1\<close>, and the row returned has ADI \<open>-3\<close>, CV2 NaN and the class
  erratic. Under "trim" the series \<open>[0,7,0]\<close> has the numerator \<open>0\<close> as a numpy integer, whose
  division by zero is NaN and no exception, and the row returned has ADI NaN, CV2 \<open>0\<close> and
  the class intermittent. On the same two series the other handlings raise.
\<close>

theorem degenerate_series_not_raised:
  "init_transform None default_adi_threshold default_cv_threshold ''ignore'' [0, 0, 0]
     = Inr [(''adi'', Float (Fin (- 3))), (''cv2'', Float NaN), (''class'', Str ''erratic'')]
 \<and> init_transform None default_adi_threshold default_cv_threshold ''trim'' [0, 7, 0]
     = Inr [(''adi'', Float NaN), (''cv2'', Float (Fin 0)), (''class'', Str ''intermittent'')]
 \<and> init_transform None default_adi_threshold default_cv_threshold ''pool'' [0, 0, 0]
     = Inl ZeroDivisionError
 \<and> init_transform None default_adi_threshold default_cv_threshold ''trim'' [0, 0, 0]
     = Inl IndexError
 \<and> init_transform None default_adi_threshold default_cv_threshold ''ignore'' [0, 7, 0]
     = Inl ZeroDivisionError"
proof -
  have i: "compute (default_self ''ignore'') [0, 0, 0] = Inr (Fin (- 3), NaN, Some ''erratic'')"
    by (simp add: compute_unfold adi_value_def py_truediv_def cv2_value_Nil class_type_table
          default_adi_threshold_def)
  have "nonzero [0, 7, 0] = [1]" by (simp add: nonzero_def)
  then have t: "compute (default_self ''trim'') [0, 7, 0] = Inr (NaN, Fin 0, Some ''intermittent'')"
    by (simp add: compute_unfold adi_value_def np_truediv_def cv2_value_single class_type_table
          default_cv_threshold_def)
  have returned:
    "init_transform None default_adi_threshold default_cv_threshold ''ignore'' [0, 0, 0]
       = Inr [(''adi'', Float (Fin (- 3))), (''cv2'', Float NaN), (''class'', Str ''erratic'')]
   \<and> init_transform None default_adi_threshold default_cv_threshold ''trim'' [0, 7, 0]
       = Inr [(''adi'', Float NaN), (''cv2'', Float (Fin 0)), (''class'', Str ''intermittent'')]"
    by (simp add: init_transform_def init_None transform_valid[OF _ i] transform_valid[OF _ t])
       (simp add: valid_features_def)
  have z: "\<forall>x\<in>set [0, 0, 0 :: real]. x = 0" by simp
  have o: "length (filter (\<lambda>x. x \<noteq> 0) [0, 7, 0 :: real]) = 1" by simp
  have p: "transform (default_self ''pool'') [0, 0, 0] = Inl ZeroDivisionError"
    using degenerate_series_raises[of "[0, 0, 0]" "default_self ''pool''"] z by simp
  have tr: "transform (default_self ''trim'') [0, 0, 0] = Inl IndexError"
    using degenerate_series_raises[of "[0, 0, 0]" "default_self ''trim''"] z by simp
  have ig: "transform (default_self ''ignore'') [0, 7, 0] = Inl ZeroDivisionError"
    using degenerate_series_raises[of "[0, 7, 0]" "default_self ''ignore''"] o by simp
  from returned p tr ig show ?thesis
    by (simp add: init_transform_def init_None)
qed

subsection \<open>Configuration\<close>

text \<open>
  C6. The specification asks for an error at construction when the handling is not one of
  the three names. The constructor accepts "average"; the first transform then raises
  \<^verbatim>\<open>UnboundLocalError\<close> at line 209.
\<close>

theorem invalid_trim_handling_accepted:
  "init None default_adi_threshold default_cv_threshold ''average''
     = Inr \<lparr>adi_threshold = default_adi_threshold, cv_threshold = default_cv_threshold,
            features = None, adi_trim_handling = ''average'',
            features_internal = [''adi'', ''cv2'', ''class'']\<rparr>
 \<and> init_transform None default_adi_threshold default_cv_threshold ''average'' [1, 0, 2]
     = Inl UnboundLocalError"
  by (simp add: init_transform_def init_None unknown_handling) (simp add: valid_features_def)

text \<open>
  C7. A features list with an entry outside "adi", "cv2", "class" makes the constructor
  raise (\<^verbatim>\<open>ValueError\<close>, the configuration error of the specification).
\<close>

theorem invalid_features_rejected:
  "f \<in> set fs \<Longrightarrow> f \<notin> {''adi'', ''cv2'', ''class''} \<Longrightarrow>
   init (Some fs) adi_thr cv_thr handling = Inl ValueError"
  by (auto simp: init_def list_all_iff valid_features_def)

text \<open>C7, witness: the list \<open>["adi", "bogus"]\<close>.\<close>

theorem invalid_features_rejected_witness:
  "init (Some [''adi'', ''bogus'']) default_adi_threshold default_cv_threshold ''pool''
     = Inl ValueError"
  using invalid_features_rejected[of "''bogus''" "[''adi'', ''bogus'']"
          default_adi_threshold default_cv_threshold "''pool''"]
  by simp

subsection \<open>The fields of the row\<close>

text \<open>
  C8. For a features list drawn from the three names the constructor succeeds, and
  whenever the transform gets as far as the class it returns a row whose labels are the
  list, in its order, each with its value. Without a features list the row is ADI, CV2,
  class.
\<close>

theorem features_order:
  "(set fs \<subseteq> {''adi'', ''cv2'', ''class''} \<longrightarrow>
      (\<exists>t. init (Some fs) adi_thr cv_thr handling = Inr t
         \<and> (\<forall>X adi cv2 cls. compute t X = Inr (adi, cv2, cls) \<longrightarrow>
              (\<exists>c row. cls = Some c \<and> transform t X = Inr row \<and> map fst row = fs
                 \<and> map snd row = map (\<lambda>f. if f = ''adi'' then Float adi
                                           else if f = ''cv2'' then Float cv2 else Str c) fs))))
 \<and> (\<exists>t. init None adi_thr cv_thr handling = Inr t
         \<and> (\<forall>X adi cv2 cls. compute t X = Inr (adi, cv2, cls) \<longrightarrow>
              (\<exists>c. cls = Some c \<and> transform t X =
                 Inr [(''adi'', Float adi), (''cv2'', Float cv2), (''class'', Str c)])))"
proof (intro conjI impI)
  assume "set fs \<subseteq> {''adi'', ''cv2'', ''class''}"
  then have v: "set fs \<subseteq> set valid_features" by (simp add: valid_features_def)
  let ?t = "\<lparr>adi_threshold = adi_thr, cv_threshold = cv_thr, features = Some fs,
        adi_trim_handling = handling, features_internal = fs\<rparr>"
  have "\<exists>c row. cls = Some c \<and> transform ?t X = Inr row \<and> map fst row = fs
                 \<and> map snd row = map (\<lambda>f. if f = ''adi'' then Float adi
                                           else if f = ''cv2'' then Float cv2 else Str c) fs"
    if c: "compute ?t X = Inr (adi, cv2, cls)" for X adi cv2 cls
  proof -
    from compute_class_bound[OF c] obtain k where k: "cls = Some k" by blast
    have "transform ?t X = Inr (map (\<lambda>f. (f, if f = ''adi'' then Float adi
                             else if f = ''cv2'' then Float cv2 else Str k)) fs)"
      using transform_valid[of ?t X adi cv2 k] v c k by simp
    with k show ?thesis by (simp add: comp_def)
  qed
  with init_Some_valid[OF v, of adi_thr cv_thr handling]
  show "\<exists>t. init (Some fs) adi_thr cv_thr handling = Inr t
         \<and> (\<forall>X adi cv2 cls. compute t X = Inr (adi, cv2, cls) \<longrightarrow>
              (\<exists>c row. cls = Some c \<and> transform t X = Inr row \<and> map fst row = fs
                 \<and> map snd row = map (\<lambda>f. if f = ''adi'' then Float adi
                                           else if f = ''cv2'' then Float cv2 else Str c) fs))"
    by blast
next
  let ?t = "\<lparr>adi_threshold = adi_thr, cv_threshold = cv_thr, features = None,
        adi_trim_handling = handling, features_internal = valid_features\<rparr>"
  have "\<exists>c. cls = Some c \<and> transform ?t X =
                 Inr [(''adi'', Float adi), (''cv2'', Float cv2), (''class'', Str c)]"
    if c: "compute ?t X = Inr (adi, cv2, cls)" for X adi cv2 cls
  proof -
    from compute_class_bound[OF c] obtain k where k: "cls = Some k" by blast
    have "transform ?t X = Inr (map (\<lambda>f. (f, if f = ''adi'' then Float adi
                             else if f = ''cv2'' then Float cv2 else Str k)) valid_features)"
      using transform_valid[of ?t X adi cv2 k] c k by simp
    with k show ?thesis by (simp add: valid_features_def)
  qed
  with init_None[of adi_thr cv_thr handling]
  show "\<exists>t. init None adi_thr cv_thr handling = Inr t
         \<and> (\<forall>X adi cv2 cls. compute t X = Inr (adi, cv2, cls) \<longrightarrow>
              (\<exists>c. cls = Some c \<and> transform t X =
                 Inr [(''adi'', Float adi), (''cv2'', Float cv2), (''class'', Str c)]))"
    by blast
qed

text \<open>C8, witness: the list \<open>["class", "adi"]\<close> on scenario A.\<close>

theorem features_order_witness:
  "init_transform (Some [''class'', ''adi'']) default_adi_threshold default_cv_threshold ''pool''
       [5, 0, 0, 3, 0, 4, 0, 0, 0, 2]
     = Inr [(''class'', Str ''intermittent''), (''adi'', Float (Fin (5 / 2)))]"
proof -
  let ?fs = "[''class'', ''adi'']"
  let ?X = "[5, 0, 0, 3, 0, 4, 0, 0, 0, 2] :: real list"
  have s: "set ?fs \<subseteq> {''adi'', ''cv2'', ''class''}" by simp
  from features_order[of ?fs default_adi_threshold default_cv_threshold "''pool''"] s
  obtain t where i: "init (Some ?fs) default_adi_threshold default_cv_threshold ''pool'' = Inr t"
    and r: "\<And>X adi cv2 cls. compute t X = Inr (adi, cv2, cls) \<Longrightarrow>
              \<exists>c row. cls = Some c \<and> transform t X = Inr row \<and> map fst row = ?fs
                 \<and> map snd row = map (\<lambda>f. if f = ''adi'' then Float adi
                                           else if f = ''cv2'' then Float cv2 else Str c) ?fs"
    by blast
  from i have h: "adi_trim_handling t = ''pool''"
    and ta: "adi_threshold t = default_adi_threshold" and tc: "cv_threshold t = default_cv_threshold"
    by (auto simp: init_def valid_features_def)
  have c: "compute t ?X = Inr (Fin (5 / 2), Fin (5 / 49), Some ''intermittent'')"
    by (simp add: scenario_A_compute[OF h] class_type_table ta tc default_adi_threshold_def
          default_cv_threshold_def)
  from r[OF c] obtain row where "transform t ?X = Inr row" "map fst row = ?fs"
    "map snd row = [Str ''intermittent'', Float (Fin (5 / 2))]"
    by auto
  then have "transform t ?X = Inr [(''class'', Str ''intermittent''), (''adi'', Float (Fin (5 / 2)))]"
    by (auto simp: map_eq_Cons_conv)
  with i show ?thesis by (simp add: init_transform_def)
qed

text \<open>
  C10. The constructor accepts the empty features list, and the transform then returns
  the row without columns on every series on which the computation of the three values
  raises nothing.
\<close>

theorem empty_features:
  "(\<exists>t. init (Some []) adi_thr cv_thr handling = Inr t \<and> features_internal t = []
       \<and> (\<forall>X. transform t X = (case compute t X of Inl e \<Rightarrow> Inl e | Inr v \<Rightarrow> Inr [])))
 \<and> init_transform (Some []) default_adi_threshold default_cv_threshold ''pool'' [1, 1, 1, 1, 1]
     = Inr []"
proof -
  have a: "assemble [] adi cv2 cls = Inr []" for adi cv2 cls
    by (simp add: assemble_def)
  have t: "transform t X = (case compute t X of Inl e \<Rightarrow> Inl e | Inr v \<Rightarrow> Inr [])"
    if "features_internal t = []" for t X
    using that by (simp add: transform_def a split: sum.splits prod.splits)
  have i: "init (Some []) a c h = Inr \<lparr>adi_threshold = a, cv_threshold = c, features = Some [],
        adi_trim_handling = h, features_internal = []\<rparr>" for a c h
    by (simp add: init_def)
  have "init_transform (Some []) default_adi_threshold default_cv_threshold ''pool'' [1, 1, 1, 1, 1]
     = Inr []"
    by (simp add: init_transform_def i t compute_unfold adi_value_def py_truediv_def)
  with i t show ?thesis by simp
qed

end
